theory Spec2Isabelle
  imports Complex_Main
begin

section \<open>JavaScript built-ins used by the services\<close>

text \<open>
  The services compute with JavaScript numbers, Prisma \<open>Decimal\<close> values and strings.
  A JavaScript number is modelled as \<open>rat option\<close>, \<open>None\<close> being \<open>NaN\<close>; the
  rounding of a decimal literal to the nearest double is not modelled. A string is
  its list of bytes. Time stamps are milliseconds since the epoch.
\<close>

definition is_digit :: "char \<Rightarrow> bool" where
  "is_digit c = (48 \<le> (of_char c :: nat) \<and> (of_char c :: nat) \<le> 57)"

definition is_space :: "char \<Rightarrow> bool" where
  "is_space c = ((of_char c :: nat) \<in> {9, 10, 11, 12, 13, 32})"

definition digits_val :: "string \<Rightarrow> nat" where
  "digits_val ds = foldl (\<lambda>a c. 10 * a + ((of_char c :: nat) - 48)) 0 ds"

text \<open>
  \<open>parseFloat\<close>: leading white space is skipped and the longest prefix that is a
  decimal literal (sign, digits, fraction, exponent) is read; \<open>NaN\<close> when there is
  none. The literal \<open>Infinity\<close> is not modelled.
\<close>

definition parse_sign :: "string \<Rightarrow> bool \<times> string" where
  "parse_sign s = (case s of
       [] \<Rightarrow> (False, [])
     | c # r \<Rightarrow> if c = CHR ''-'' then (True, r)
               else if c = CHR ''+'' then (False, r) else (False, s))"

definition parse_exponent :: "string \<Rightarrow> int" where
  "parse_exponent s = (case s of
       [] \<Rightarrow> 0
     | c # r \<Rightarrow>
         if c = CHR ''e'' \<or> c = CHR ''E'' then
           (let (neg, u) = parse_sign r; ds = takeWhile is_digit u
            in if ds = [] then 0
               else if neg then - int (digits_val ds) else int (digits_val ds))
         else 0)"

definition scale10 :: "rat \<Rightarrow> int \<Rightarrow> rat" where
  "scale10 r e = (if e < 0 then r / 10 ^ nat (- e) else r * 10 ^ nat e)"

definition parseFloat :: "string \<Rightarrow> rat option" where
  "parseFloat s =
     (let (neg, u) = parse_sign (dropWhile is_space s);
          ip = takeWhile is_digit u;
          r1 = dropWhile is_digit u;
          hasDot = (r1 \<noteq> [] \<and> hd r1 = CHR ''.'');
          fp = (if hasDot then takeWhile is_digit (tl r1) else []);
          r2 = (if hasDot then dropWhile is_digit (tl r1) else r1);
          m = rat_of_nat (digits_val ip) + rat_of_nat (digits_val fp) / 10 ^ length fp
      in if ip = [] \<and> fp = [] then None
         else Some (scale10 (if neg then - m else m) (parse_exponent r2)))"

fun show_nat :: "nat \<Rightarrow> string" where
  "show_nat n =
     (if n < 10 then [''0123456789'' ! n]
      else show_nat (n div 10) @ [''0123456789'' ! (n mod 10)])"

declare show_nat.simps [simp del]

definition pad7 :: "string \<Rightarrow> string" where
  "pad7 s = replicate (7 - length s) (CHR ''0'') @ s"

definition strip_zeros :: "string \<Rightarrow> string" where
  "strip_zeros s = rev (dropWhile (\<lambda>c. c = CHR ''0'') (rev s))"

text \<open>
  \<open>Number.prototype.toFixed(7)\<close>: the nearest multiple of \<open>10^-7\<close>, the larger one
  on a tie, with exactly seven fraction digits. The exponential form of numbers
  from \<open>10^21\<close> on is not modelled.
\<close>

definition toFixed7 :: "rat option \<Rightarrow> string" where
  "toFixed7 x = (case x of
       None \<Rightarrow> ''NaN''
     | Some r \<Rightarrow>
         (let a = nat \<lfloor>\<bar>r\<bar> * 10 ^ 7 + 1 / 2\<rfloor>
          in (if r < 0 then ''-'' else []) @ show_nat (a div 10 ^ 7) @ ''.''
             @ pad7 (show_nat (a mod 10 ^ 7))))"

text \<open>
  \<open>toString\<close> of a Prisma \<open>Decimal\<close> read from a \<open>DECIMAL(20,7)\<close> column, also
  used for a number inside a template string: plain notation without trailing
  zeros; exponential notation below \<open>10^-6\<close>, as decimal.js prints it.
\<close>

definition decimal_toString :: "rat \<Rightarrow> string" where
  "decimal_toString r =
     (let a = nat \<lfloor>\<bar>r\<bar> * 10 ^ 7\<rfloor>;
          sgn = (if r < 0 \<and> a \<noteq> 0 then ''-'' else []);
          fp = strip_zeros (pad7 (show_nat (a mod 10 ^ 7)))
      in if 0 < a \<and> a < 10 then sgn @ show_nat a @ ''e-7''
         else sgn @ show_nat (a div 10 ^ 7) @ (if fp = [] then [] else ''.'' @ fp))"

text \<open>A value written to a \<open>DECIMAL(20,7)\<close> column is rounded to seven places.\<close>

definition toDecimal7 :: "rat \<Rightarrow> rat" where
  "toDecimal7 r = (if r < 0 then - 1 else 1) * rat_of_int \<lfloor>\<bar>r\<bar> * 10 ^ 7 + 1 / 2\<rfloor> / 10 ^ 7"

text \<open>\<open>String.prototype.split\<close> with a one-character separator.\<close>

fun split_on :: "char \<Rightarrow> string \<Rightarrow> string list" where
  "split_on c [] = [[]]"
| "split_on c (x # xs) =
     (if x = c then [] # split_on c xs
      else (x # hd (split_on c xs)) # tl (split_on c xs))"

text \<open>
  Hex strings as \<open>Buffer.toString("hex")\<close> writes them and
  \<open>Buffer.from(s, "hex")\<close> reads them: reading stops at the first pair that is
  not two hex digits.
\<close>

definition hex_digit :: "nat \<Rightarrow> char" where
  "hex_digit n = ''0123456789abcdef'' ! n"

definition hex_of_byte :: "char \<Rightarrow> string" where
  "hex_of_byte c = [hex_digit ((of_char c :: nat) div 16), hex_digit ((of_char c :: nat) mod 16)]"

definition toHex :: "string \<Rightarrow> string" where
  "toHex bs = concat (map hex_of_byte bs)"

definition hex_val :: "char \<Rightarrow> nat option" where
  "hex_val c =
     (let n = (of_char c :: nat)
      in if 48 \<le> n \<and> n \<le> 57 then Some (n - 48)
         else if 97 \<le> n \<and> n \<le> 102 then Some (n - 87)
         else if 65 \<le> n \<and> n \<le> 70 then Some (n - 55)
         else None)"

fun fromHex :: "string \<Rightarrow> string" where
  "fromHex (a # b # r) =
     (case hex_val a of
        None \<Rightarrow> []
      | Some x \<Rightarrow> (case hex_val b of
                     None \<Rightarrow> []
                   | Some y \<Rightarrow> char_of (16 * x + y) # fromHex r))"
| "fromHex [a] = []"
| "fromHex [] = []"

section \<open>Errors (utils/errors)\<close>

text \<open>
  \<open>AppError\<close> carries the class name, the code, the message, the HTTP status and
  the metadata. \<open>Error\<close> is a plain JavaScript error, \<open>PrismaError\<close> an error of
  the database client (\<open>P2002\<close>: unique constraint, \<open>P2025\<close>: record not found).
\<close>

datatype Exn =
    AppError (err_name: string) (err_code: string) (err_message: string)
             (httpStatus: nat) (err_metadata: "(string \<times> string) list")
  | Error string
  | PrismaError string

fun message_of :: "Exn \<Rightarrow> string" where
  "message_of (AppError n c m h md) = m"
| "message_of (Error m) = m"
| "message_of (PrismaError m) = m"

definition ValidationError :: "string \<Rightarrow> (string \<times> string) list \<Rightarrow> Exn" where
  "ValidationError m md = AppError ''ValidationError'' ''VALIDATION_ERROR'' m 400 md"

definition NotFoundError :: "string \<Rightarrow> (string \<times> string) list \<Rightarrow> Exn" where
  "NotFoundError resource md =
     AppError ''NotFoundError'' ''NOT_FOUND'' (resource @ '' not found'') 404 md"

definition InsufficientBalanceError :: "string \<Rightarrow> string \<Rightarrow> (string \<times> string) list \<Rightarrow> Exn" where
  "InsufficientBalanceError required available md =
     AppError ''InsufficientBalanceError'' ''INSUFFICIENT_BALANCE''
       (''Insufficient balance. Required: '' @ required @ '', Available: '' @ available) 400
       ([(''required'', required), (''available'', available)] @ md)"

definition WalletFrozenError :: "string \<Rightarrow> (string \<times> string) list \<Rightarrow> Exn" where
  "WalletFrozenError walletId md =
     AppError ''WalletFrozenError'' ''WALLET_FROZEN'' ''Wallet is frozen'' 403
       ([(''walletId'', walletId)] @ md)"

definition UserBlockedError :: "string \<Rightarrow> (string \<times> string) list \<Rightarrow> Exn" where
  "UserBlockedError userId md =
     AppError ''UserBlockedError'' ''USER_BLOCKED'' ''User account is blocked'' 403
       ([(''userId'', userId)] @ md)"

definition RateLimitExceededError :: "string \<Rightarrow> (string \<times> string) list \<Rightarrow> Exn" where
  "RateLimitExceededError m md =
     AppError ''RateLimitExceededError'' ''RATE_LIMIT_EXCEEDED'' m 429 md"

definition LimitExceededError :: "string \<Rightarrow> (string \<times> string) list \<Rightarrow> Exn" where
  "LimitExceededError m md = AppError ''LimitExceededError'' ''LIMIT_EXCEEDED'' m 400 md"

definition StellarError :: "string \<Rightarrow> (string \<times> string) list \<Rightarrow> Exn" where
  "StellarError m md = AppError ''StellarError'' ''STELLAR_ERROR'' m 500 md"

definition InternalServerError :: "string \<Rightarrow> (string \<times> string) list \<Rightarrow> Exn" where
  "InternalServerError m md =
     AppError ''InternalServerError'' ''INTERNAL_SERVER_ERROR'' m 500 md"

section \<open>Configuration (config/index)\<close>

record Config =
  stellar_network :: string
  encryption_walletKey :: string
  funding_rateLimitMax :: int
  funding_dailyCapXlm :: rat
  transaction_minAmount :: rat
  transaction_maxAmount :: rat
  transaction_dailyLimit :: rat
  queue_maxRetries :: int

text \<open>The values \<open>config\<close> takes when the environment sets none of the limits.\<close>

definition defaultConfig :: Config where
  "defaultConfig =
     \<lparr> stellar_network = ''testnet'',
       encryption_walletKey = ''000102030405060708090a0b0c0d0e0f101112131415161718191a1b1c1d1e1f'',
       funding_rateLimitMax = 3,
       funding_dailyCapXlm = 10000,
       transaction_minAmount = 1,
       transaction_maxAmount = 100000,
       transaction_dailyLimit = 500000,
       queue_maxRetries = 3 \<rparr>"

section \<open>Data model (the Prisma schema)\<close>

datatype UserStatus = ACTIVE | BLOCKED | SUSPENDED

datatype WalletStatus = WALLET_ACTIVE | FROZEN | CLOSED

datatype TransactionStatus = CREATED | PENDING | SUCCESS | FAILED | CANCELLED

datatype TransactionType = FUNDING | P2P_SEND | P2P_RECEIVE

record User =
  u_id :: string
  keycloakId :: string
  handle :: string
  u_status :: UserStatus

record Wallet =
  w_id :: string
  userId :: string
  stellarPublicKey :: string
  stellarSecretKey :: string
  encryptionIV :: string
  balance :: rat
  w_status :: WalletStatus
  lastFundedAt :: "int option"
  fundingCount :: int
  dailyFundingSum :: rat
  lastResetDate :: int

record Transaction =
  t_id :: string
  senderId :: string
  receiverId :: string
  amount :: rat
  t_type :: TransactionType
  t_status :: TransactionStatus
  stellarTxHash :: "string option"
  stellarLedger :: "int option"
  idempotencyKey :: "string option"
  failureReason :: "string option"
  retryCount :: int
  t_metadata :: "(string \<times> string) list"
  createdAt :: int
  completedAt :: "int option"

text \<open>A job of the queue \<open>transaction-processing\<close>, as \<open>transactionQueue.add\<close> stores it.\<close>

record Job =
  job_name :: string
  job_transactionId :: string
  job_attempts :: int
  job_backoffDelay :: int

text \<open>A payment handed to \<open>stellarService.sendPayment\<close>.\<close>

record PaymentParams =
  fromSecretKey :: string
  toPublicKey :: string
  pay_amount :: string
  memo :: "string option"

text \<open>
  The state the services share: the tables, the queue, and the log of the payments
  handed to the ledger gateway (kept to state which calls were made).
\<close>

record World =
  users :: "User list"
  wallets :: "Wallet list"
  transactions :: "Transaction list"
  queue :: "Job list"
  submitted :: "PaymentParams list"

section \<open>Secret-key encryption (wallet/wallet.crypto)\<close>

text \<open>
  AES-256-GCM itself is Node's \<open>crypto\<close> library and is a parameter of the model:
  the cipher maps key, IV and plaintext to ciphertext and authentication tag; the
  decipher maps key, IV, tag and ciphertext to the plaintext, or to \<open>None\<close> when it
  throws (the tag does not verify). The random IV of \<open>encrypt\<close> is an argument.
\<close>

type_synonym cipher = "string \<Rightarrow> string \<Rightarrow> string \<Rightarrow> string \<times> string"

type_synonym decipher = "string \<Rightarrow> string \<Rightarrow> string \<Rightarrow> string \<Rightarrow> string option"

record EncryptedData =
  encrypted :: string
  iv :: string
  authTag :: string

definition KEY :: "Config \<Rightarrow> string" where
  "KEY cfg = fromHex (encryption_walletKey cfg)"

definition encrypt :: "cipher \<Rightarrow> Config \<Rightarrow> string \<Rightarrow> string \<Rightarrow> EncryptedData" where
  "encrypt enc cfg ivBytes plaintext =
     (let (ct, tag) = enc (KEY cfg) ivBytes plaintext
      in \<lparr> encrypted = toHex ct, iv = toHex ivBytes, authTag = toHex tag \<rparr>)"

definition decrypt :: "decipher \<Rightarrow> Config \<Rightarrow> EncryptedData \<Rightarrow> Exn + string" where
  "decrypt dec cfg encryptedData =
     (case dec (KEY cfg) (fromHex (iv encryptedData)) (fromHex (authTag encryptedData))
             (fromHex (encrypted encryptedData)) of
        None \<Rightarrow> Inl (Error ''Unsupported state or unable to authenticate data'')
      | Some decrypted \<Rightarrow> Inr decrypted)"

definition encryptSecretKey :: "cipher \<Rightarrow> Config \<Rightarrow> string \<Rightarrow> string \<Rightarrow> string \<times> string" where
  "encryptSecretKey enc cfg ivBytes secretKey =
     (let result = encrypt enc cfg ivBytes secretKey;
          encryptedSecret = encrypted result @ '':'' @ authTag result
      in (encryptedSecret, iv result))"

text \<open>
  The destructuring \<open>[encrypted, authTag] = encryptedSecret.split(":")\<close> takes the
  first two parts; a missing part is \<open>undefined\<close>, and \<open>undefined\<close> and the empty
  string are both falsy.
\<close>

definition decryptSecretKey :: "decipher \<Rightarrow> Config \<Rightarrow> string \<Rightarrow> string \<Rightarrow> Exn + string" where
  "decryptSecretKey dec cfg encryptedSecret ivHex =
     (let parts = split_on (CHR '':'') encryptedSecret;
          enc_part = (if 0 < length parts then parts ! 0 else []);
          tag_part = (if 1 < length parts then parts ! 1 else [])
      in if enc_part = [] \<or> tag_part = []
         then Inl (Error ''Invalid encrypted secret key format'')
         else decrypt dec cfg \<lparr> encrypted = enc_part, iv = ivHex, authTag = tag_part \<rparr>)"

text \<open>
  A small cipher with the interface of the library one, used to run the model on
  concrete data: the ciphertext is the reversed plaintext, the tag depends on key
  and IV, and deciphering checks the tag.
\<close>

definition toy_tag :: "string \<Rightarrow> string \<Rightarrow> string" where
  "toy_tag k i = CHR ''T'' # take 3 (k @ i)"

definition toy_cipher :: cipher where
  "toy_cipher k i p = (rev p, toy_tag k i)"

definition toy_decipher :: decipher where
  "toy_decipher k i tag ct = (if tag = toy_tag k i then Some (rev ct) else None)"

section \<open>Ledger gateway (stellar/stellar.service)\<close>

text \<open>
  The Horizon server is outside the program. A failed request is a
  \<open>HorizonError\<close>: the HTTP status of \<open>error.response\<close> when there is a response,
  the first operation result code when Horizon sent one, and the message.
\<close>

record HorizonError =
  response_status :: "nat option"
  operation_code :: "string option"
  he_message :: string

record BalanceLine =
  asset_type :: string
  bl_balance :: string

record PaymentResult =
  pr_hash :: string
  pr_ledger :: int

text \<open>\<open>getBalance\<close>, given what \<open>server.loadAccount\<close> did.\<close>

definition StellarService_getBalance :: "HorizonError + BalanceLine list \<Rightarrow> Exn + string" where
  "StellarService_getBalance loaded =
     (case loaded of
        Inr balances \<Rightarrow>
          (case find (\<lambda>b. asset_type b = ''native'') balances of
             None \<Rightarrow> Inr ''0''
           | Some nativeBalance \<Rightarrow>
               Inr (if bl_balance nativeBalance = [] then ''0'' else bl_balance nativeBalance))
      | Inl error \<Rightarrow>
          if response_status error = Some 404 then Inr ''0''
          else Inl (StellarError ''Failed to get account balance'' []))"

text \<open>
  \<open>sendPayment\<close> of the gateway, given what building, signing and submitting the
  transaction did; the memo is cut to 28 characters.
\<close>

definition StellarService_sendPayment ::
  "(PaymentParams \<Rightarrow> HorizonError + PaymentResult) \<Rightarrow> PaymentParams \<Rightarrow> Exn + PaymentResult" where
  "StellarService_sendPayment horizon params =
     (let memoText = (case memo params of
                        None \<Rightarrow> None
                      | Some m \<Rightarrow> if m = [] then None
                                  else Some (if length m > 28 then take 28 m else m))
      in case horizon (params\<lparr>memo := memoText\<rparr>) of
           Inr result \<Rightarrow> Inr \<lparr> pr_hash = pr_hash result, pr_ledger = pr_ledger result \<rparr>
         | Inl error \<Rightarrow>
             (let detail = (case operation_code error of
                              None \<Rightarrow> he_message error
                            | Some c \<Rightarrow> if c = [] then he_message error else c)
              in Inl (StellarError (''Payment failed: '' @ detail) [])))"



section \<open>Wallet service (wallet/wallet.service)\<close>

text \<open>
  \<open>prisma.wallet.update\<close> by id. Every caller has just read the wallet, so the
  record-not-found failure is left out.
\<close>

definition wallet_update :: "string \<Rightarrow> (Wallet \<Rightarrow> Wallet) \<Rightarrow> World \<Rightarrow> World" where
  "wallet_update wid f w =
     w\<lparr>wallets := map (\<lambda>x. if w_id x = wid then f x else x) (wallets w)\<rparr>"

definition getWalletByUserId :: "World \<Rightarrow> string \<Rightarrow> Exn + Wallet" where
  "getWalletByUserId w uid =
     (case find (\<lambda>x. userId x = uid) (wallets w) of
        None \<Rightarrow> Inl (NotFoundError ''Wallet'' [])
      | Some wallet \<Rightarrow> Inr wallet)"

definition getDecryptedSecretKey :: "decipher \<Rightarrow> Config \<Rightarrow> Wallet \<Rightarrow> Exn + string" where
  "getDecryptedSecretKey dec cfg wallet =
     decryptSecretKey dec cfg (stellarSecretKey wallet) (encryptionIV wallet)"




definition syncBalance ::
  "(string \<Rightarrow> HorizonError + BalanceLine list) \<Rightarrow> string \<Rightarrow> World \<Rightarrow> (Exn + string) \<times> World" where
  "syncBalance loadAccount walletId w =
     (case find (\<lambda>x. w_id x = walletId) (wallets w) of
        None \<Rightarrow> (Inl (NotFoundError ''Wallet'' []), w)
      | Some wallet \<Rightarrow>
          (case StellarService_getBalance (loadAccount (stellarPublicKey wallet)) of
             Inl e \<Rightarrow> (Inl e, w)
           | Inr bal \<Rightarrow>
               (case parseFloat bal of
                  None \<Rightarrow> (Inl (PrismaError ''Invalid value''), w)
                | Some b \<Rightarrow>
                    (Inr bal, wallet_update walletId (\<lambda>x. x\<lparr>balance := toDecimal7 b\<rparr>) w))))"



section \<open>User service (user/user.service)\<close>

definition getUserById :: "World \<Rightarrow> string \<Rightarrow> Exn + User" where
  "getUserById w uid =
     (case find (\<lambda>u. u_id u = uid) (users w) of
        None \<Rightarrow> Inl (NotFoundError ''User'' [])
      | Some u \<Rightarrow> Inr u)"

definition getUserByKeycloakId :: "World \<Rightarrow> string \<Rightarrow> Exn + User" where
  "getUserByKeycloakId w kid =
     (case find (\<lambda>u. keycloakId u = kid) (users w) of
        None \<Rightarrow> Inl (NotFoundError ''User'' [])
      | Some u \<Rightarrow> Inr u)"

definition getUserByHandle :: "World \<Rightarrow> string \<Rightarrow> Exn + User" where
  "getUserByHandle w h =
     (case find (\<lambda>u. handle u = h) (users w) of
        None \<Rightarrow> Inl (NotFoundError ''User'' [])
      | Some u \<Rightarrow> Inr u)"

section \<open>Transaction service (transaction/transaction.service)\<close>

text \<open>
  What a request sees of its surroundings: the clock, the offset of the server's
  local time from UTC (for \<open>today.setHours(0, 0, 0, 0)\<close>), and the id the database
  gives the next row.
\<close>

record Env =
  env_now :: int
  env_tzOffset :: int
  env_newId :: string

definition startOfToday :: "Env \<Rightarrow> int" where
  "startOfToday env = env_now env - (env_now env + env_tzOffset env) mod 86400000"

definition findByIdempotencyKey :: "World \<Rightarrow> string \<Rightarrow> Transaction option" where
  "findByIdempotencyKey w k = find (\<lambda>t. idempotencyKey t = Some k) (transactions w)"

definition findTransaction :: "World \<Rightarrow> string \<Rightarrow> Transaction option" where
  "findTransaction w i = find (\<lambda>t. t_id t = i) (transactions w)"

text \<open>
  The sum of \<open>prisma.transaction.aggregate\<close> over the sender's transactions of
  today in PENDING or SUCCESS; no row gives \<open>null\<close>, read as 0.
\<close>

definition dailyTotal :: "World \<Rightarrow> string \<Rightarrow> int \<Rightarrow> rat" where
  "dailyTotal w sid today =
     sum_list (map amount
       (filter (\<lambda>t. senderId t = sid \<and> createdAt t \<ge> today
                     \<and> (t_status t = PENDING \<or> t_status t = SUCCESS))
               (transactions w)))"

text \<open>
  \<open>prisma.transaction.create\<close>: the primary key and the unique index on
  \<open>idempotency_key\<close> reject a duplicate (\<open>NULL\<close> keys are never duplicates).
\<close>

definition createTransaction :: "Transaction \<Rightarrow> World \<Rightarrow> Exn + World" where
  "createTransaction t w =
     (if list_ex (\<lambda>x. t_id x = t_id t) (transactions w)
         \<or> list_ex (\<lambda>x. idempotencyKey t \<noteq> None \<and> idempotencyKey x = idempotencyKey t)
               (transactions w)
      then Inl (PrismaError ''P2002'')
      else Inr (w\<lparr>transactions := transactions w @ [t]\<rparr>))"

definition amountError :: "Config \<Rightarrow> Exn" where
  "amountError cfg =
     ValidationError
       (''Amount must be between '' @ decimal_toString (transaction_minAmount cfg)
          @ '' and '' @ decimal_toString (transaction_maxAmount cfg) @ '' XLM'') []"

definition processJob :: "Config \<Rightarrow> string \<Rightarrow> Job" where
  "processJob cfg transactionId =
     \<lparr> job_name = ''process-transaction'',
       job_transactionId = transactionId,
       job_attempts = queue_maxRetries cfg,
       job_backoffDelay = 2000 \<rparr>"

text \<open>
  Step 2 of \<open>sendPayment\<close>: an idempotency key is looked up when it is truthy, that
  is, given and not the empty string.
\<close>

definition existingFor :: "World \<Rightarrow> string option \<Rightarrow> Transaction option" where
  "existingFor w idemKey =
     (case idemKey of
        None \<Rightarrow> None
      | Some k \<Rightarrow> if k = [] then None else findByIdempotencyKey w k)"

text \<open>
  \<open>sendPayment\<close>, step by step as the source numbers them. The lookups of step 3
  and of step 5 run under \<open>Promise.all\<close>; all of them fail with the same error, so
  their order does not show. \<open>transactionQueue.add\<close> is taken to succeed.
\<close>

definition sendPayment ::
  "Config \<Rightarrow> Env \<Rightarrow> string \<Rightarrow> string \<Rightarrow> string \<Rightarrow> string option \<Rightarrow> World \<Rightarrow>
   (Exn + Transaction) \<times> World" where
  "sendPayment cfg env senderUserId recipientHandle amount0 idemKey w =
     (case parseFloat amount0 of
        None \<Rightarrow> (Inl (amountError cfg), w)
      | Some amountNum \<Rightarrow>
         if amountNum \<le> 0 \<or> amountNum < transaction_minAmount cfg
            \<or> amountNum > transaction_maxAmount cfg
         then (Inl (amountError cfg), w)
         else
         (case existingFor w idemKey of
            Some existing \<Rightarrow> (Inr existing, w)
          | None \<Rightarrow>
         (case getUserById w senderUserId of
            Inl e \<Rightarrow> (Inl e, w)
          | Inr sender \<Rightarrow>
         (case getUserByHandle w recipientHandle of
            Inl e \<Rightarrow> (Inl e, w)
          | Inr recipient \<Rightarrow>
         if u_id sender = u_id recipient
         then (Inl (ValidationError ''Cannot send payment to yourself'' []), w)
         else if u_status sender = BLOCKED then (Inl (UserBlockedError (u_id sender) []), w)
         else if u_status recipient = BLOCKED then (Inl (UserBlockedError (u_id recipient) []), w)
         else
         (case getWalletByUserId w (u_id sender) of
            Inl e \<Rightarrow> (Inl e, w)
          | Inr senderWallet \<Rightarrow>
         (case getWalletByUserId w (u_id recipient) of
            Inl e \<Rightarrow> (Inl e, w)
          | Inr recipientWallet \<Rightarrow>
         if w_status senderWallet = FROZEN
         then (Inl (WalletFrozenError (w_id senderWallet) []), w)
         else if w_status senderWallet = CLOSED
         then (Inl (ValidationError ''Sender wallet is closed'' []), w)
         else if w_status recipientWallet = FROZEN
         then (Inl (WalletFrozenError (w_id recipientWallet) []), w)
         else if w_status recipientWallet = CLOSED
         then (Inl (ValidationError ''Recipient wallet is closed'' []), w)
         else if balance senderWallet < amountNum
         then (Inl (InsufficientBalanceError amount0
                      (decimal_toString (balance senderWallet)) []), w)
         else if dailyTotal w (u_id sender) (startOfToday env) + amountNum
                   > transaction_dailyLimit cfg
         then (Inl (LimitExceededError
                      (''Daily transaction limit of ''
                         @ decimal_toString (transaction_dailyLimit cfg) @ '' XLM exceeded'') []), w)
         else
           (let t = \<lparr> t_id = env_newId env,
                      senderId = u_id sender,
                      receiverId = u_id recipient,
                      amount = toDecimal7 amountNum,
                      t_type = P2P_SEND,
                      t_status = CREATED,
                      stellarTxHash = None,
                      stellarLedger = None,
                      idempotencyKey = idemKey,
                      failureReason = None,
                      retryCount = 0,
                      t_metadata = [(''senderHandle'', handle sender),
                                    (''recipientHandle'', handle recipient)],
                      createdAt = env_now env,
                      completedAt = None \<rparr>
            in case createTransaction t w of
                 Inl e \<Rightarrow> (Inl e, w)
               | Inr w1 \<Rightarrow>
                   (Inr t, w1\<lparr>queue := queue w1 @ [processJob cfg (t_id t)]\<rparr>))))))))"

text \<open>
  \<open>prisma.transaction.update\<close> by id: the row must exist, and the unique index on
  \<open>stellar_tx_hash\<close> rejects a new hash that another row already has.
\<close>

definition updateTransaction ::
  "string \<Rightarrow> (Transaction \<Rightarrow> Transaction) \<Rightarrow> World \<Rightarrow> Exn + World" where
  "updateTransaction i f w =
     (case findTransaction w i of
        None \<Rightarrow> Inl (PrismaError ''P2025'')
      | Some t \<Rightarrow>
          if stellarTxHash (f t) \<noteq> stellarTxHash t \<and> stellarTxHash (f t) \<noteq> None
             \<and> list_ex (\<lambda>x. t_id x \<noteq> i \<and> stellarTxHash x = stellarTxHash (f t))
                   (transactions w)
          then Inl (PrismaError ''P2002'')
          else Inr (w\<lparr>transactions :=
                      map (\<lambda>x. if t_id x = i then f x else x) (transactions w)\<rparr>))"

record StatusMetadata =
  md_stellarTxHash :: "string option"
  md_stellarLedger :: "int option"
  md_failureReason :: "string option"

definition noMetadata :: StatusMetadata where
  "noMetadata = \<lparr> md_stellarTxHash = None, md_stellarLedger = None, md_failureReason = None \<rparr>"

text \<open>
  \<open>updateTransactionStatus\<close> at time \<open>now\<close>. A field of the metadata is written
  when it is truthy: a non-empty string, a ledger number other than 0. The caller
  uses the new state only, so the returned row is left out.
\<close>

definition updateTransactionStatus ::
  "int \<Rightarrow> string \<Rightarrow> TransactionStatus \<Rightarrow> StatusMetadata \<Rightarrow> World \<Rightarrow> Exn + World" where
  "updateTransactionStatus now transactionId status md w =
     updateTransaction transactionId
       (\<lambda>t. t\<lparr> t_status := status,
                stellarTxHash :=
                  (case md_stellarTxHash md of
                     None \<Rightarrow> stellarTxHash t
                   | Some h \<Rightarrow> if h = [] then stellarTxHash t else Some h),
                stellarLedger :=
                  (case md_stellarLedger md of
                     None \<Rightarrow> stellarLedger t
                   | Some l \<Rightarrow> if l = 0 then stellarLedger t else Some l),
                failureReason :=
                  (case md_failureReason md of
                     None \<Rightarrow> failureReason t
                   | Some r \<Rightarrow> if r = [] then failureReason t else Some r),
                completedAt :=
                  (if status = SUCCESS \<or> status = FAILED then Some now else completedAt t) \<rparr>)
       w"

definition incrementRetryCount :: "string \<Rightarrow> World \<Rightarrow> Exn + World" where
  "incrementRetryCount transactionId w =
     updateTransaction transactionId (\<lambda>t. t\<lparr>retryCount := retryCount t + 1\<rparr>) w"

section \<open>The endpoint POST /transactions/send (transaction/transaction.controller)\<close>

record SendBody =
  b_recipientHandle :: string
  b_amount :: string
  b_idempotencyKey :: "string option"

record SendResponse =
  http_code :: nat
  r_transactionId :: string
  r_status :: TransactionStatus
  r_amount :: string
  r_recipientHandle :: string
  r_createdAt :: int
  r_message :: string

text \<open>The schema: a handle of 3 to 30 characters, an amount matching \<open>^\d+(\.\d{1,7})?$\<close>.\<close>

definition amount_matches :: "string \<Rightarrow> bool" where
  "amount_matches s =
     (let ip = takeWhile is_digit s; r = dropWhile is_digit s
      in ip \<noteq> [] \<and>
         (r = [] \<or> (hd r = CHR ''.'' \<and> tl r \<noteq> [] \<and> length (tl r) \<le> 7
                     \<and> list_all is_digit (tl r))))"

definition sendPaymentSchema :: "SendBody \<Rightarrow> bool" where
  "sendPaymentSchema body =
     (3 \<le> length (b_recipientHandle body) \<and> length (b_recipientHandle body) \<le> 30
      \<and> amount_matches (b_amount body))"

definition controller_sendPayment ::
  "Config \<Rightarrow> Env \<Rightarrow> string \<Rightarrow> SendBody \<Rightarrow> World \<Rightarrow> (Exn + SendResponse) \<times> World" where
  "controller_sendPayment cfg env callerKeycloakId body w =
     (if \<not> sendPaymentSchema body
      then (Inl (ValidationError ''Invalid payment data'' [(''errors'', ''issues'')]), w)
      else (case getUserByKeycloakId w callerKeycloakId of
              Inl e \<Rightarrow> (Inl e, w)
            | Inr user \<Rightarrow>
                (case sendPayment cfg env (u_id user) (b_recipientHandle body) (b_amount body)
                        (b_idempotencyKey body) w of
                   (Inl e, w1) \<Rightarrow> (Inl e, w1)
                 | (Inr t, w1) \<Rightarrow>
                     (Inr \<lparr> http_code = 201,
                            r_transactionId = t_id t,
                            r_status = t_status t,
                            r_amount = decimal_toString (amount t),
                            r_recipientHandle = b_recipientHandle body,
                            r_createdAt = createdAt t,
                            r_message = ''Payment initiated. Check status for confirmation.'' \<rparr>,
                      w1))))"

section \<open>Settlement worker (workers/transaction.worker)\<close>

text \<open>
  What one run of \<open>processTransaction\<close> sees of its surroundings: the clock, the
  decipher of Node's library, and what the Horizon server does with a submitted
  payment and with an account query.
\<close>

record WorkerEnv =
  wk_now :: int
  wk_decipher :: decipher
  wk_submit :: "PaymentParams \<Rightarrow> HorizonError + PaymentResult"
  wk_loadAccount :: "string \<Rightarrow> HorizonError + BalanceLine list"

record JobReturn =
  jr_status :: TransactionStatus
  jr_hash :: "string option"
  jr_ledger :: "int option"
  jr_reason :: "string option"

text \<open>
  The two \<open>syncBalance\<close> calls of \<open>Promise.all\<close>: both run, the sender's first
  here; when one fails the other's update still happens and the failure is thrown.
\<close>

definition syncBoth ::
  "WorkerEnv \<Rightarrow> string \<Rightarrow> string \<Rightarrow> World \<Rightarrow> Exn option \<times> World" where
  "syncBoth env senderWalletId receiverWalletId w =
     (case syncBalance (wk_loadAccount env) senderWalletId w of
        (r1, w1) \<Rightarrow>
          (case syncBalance (wk_loadAccount env) receiverWalletId w1 of
             (r2, w2) \<Rightarrow>
               ((case r1 of
                   Inl e \<Rightarrow> Some e
                 | Inr _ \<Rightarrow> (case r2 of Inl e \<Rightarrow> Some e | Inr _ \<Rightarrow> None)), w2)))"

text \<open>
  The \<open>try\<close> block of \<open>processTransaction\<close>: \<open>Inl\<close> is the error thrown, together
  with the state reached when it was thrown. The sender, the receiver and their
  wallets are those read in step 1.
\<close>

definition processTransaction_try ::
  "Config \<Rightarrow> WorkerEnv \<Rightarrow> string \<Rightarrow> World \<Rightarrow> (Exn + JobReturn) \<times> World" where
  "processTransaction_try cfg env transactionId w =
     (case findTransaction w transactionId of
        None \<Rightarrow> (Inl (Error ''Transaction not found''), w)
      | Some transaction \<Rightarrow>
         if t_status transaction = SUCCESS \<or> t_status transaction = FAILED
         then (Inr \<lparr> jr_status = t_status transaction, jr_hash = None, jr_ledger = None,
                     jr_reason = None \<rparr>, w)
         else
         (case updateTransactionStatus (wk_now env) transactionId PENDING noMetadata w of
            Inl e \<Rightarrow> (Inl e, w)
          | Inr w1 \<Rightarrow>
         (case (find (\<lambda>x. userId x = senderId transaction) (wallets w),
                find (\<lambda>x. userId x = receiverId transaction) (wallets w)) of
            (Some senderWallet, Some receiverWallet) \<Rightarrow>
              (case getDecryptedSecretKey (wk_decipher env) cfg senderWallet of
                 Inl e \<Rightarrow> (Inl e, w1)
               | Inr senderSecretKey \<Rightarrow>
                  (let params = \<lparr> fromSecretKey = senderSecretKey,
                                   toPublicKey = stellarPublicKey receiverWallet,
                                   pay_amount = decimal_toString (amount transaction),
                                   memo = Some transactionId \<rparr>;
                       w2 = w1\<lparr>submitted := submitted w1 @ [params]\<rparr>
                   in case StellarService_sendPayment (wk_submit env) params of
                        Inl e \<Rightarrow> (Inl e, w2)
                      | Inr result \<Rightarrow>
                         (case updateTransactionStatus (wk_now env) transactionId SUCCESS
                                 \<lparr> md_stellarTxHash = Some (pr_hash result),
                                   md_stellarLedger = Some (pr_ledger result),
                                   md_failureReason = None \<rparr> w2 of
                            Inl e \<Rightarrow> (Inl e, w2)
                          | Inr w3 \<Rightarrow>
                             (case syncBoth env (w_id senderWallet) (w_id receiverWallet) w3 of
                                (Some e, w4) \<Rightarrow> (Inl e, w4)
                              | (None, w4) \<Rightarrow>
                                  (Inr \<lparr> jr_status = SUCCESS,
                                         jr_hash = Some (pr_hash result),
                                         jr_ledger = Some (pr_ledger result),
                                         jr_reason = None \<rparr>, w4)))))
          | _ \<Rightarrow> (Inl (Error ''Wallet not found for sender or receiver''), w1))))"

text \<open>
  The \<open>catch\<close> block: the retry counter is incremented, the row is read again, and
  the transaction is marked FAILED when the counter has reached
  \<open>maxRetries - 1\<close>; otherwise the error is thrown again. An error of the
  increment itself leaves the function.
\<close>

definition processTransaction_catch ::
  "Config \<Rightarrow> WorkerEnv \<Rightarrow> string \<Rightarrow> Exn \<Rightarrow> World \<Rightarrow> (Exn + JobReturn) \<times> World" where
  "processTransaction_catch cfg env transactionId error w =
     (case incrementRetryCount transactionId w of
        Inl e \<Rightarrow> (Inl e, w)
      | Inr w1 \<Rightarrow>
          (let errorMessage = message_of error
           in case findTransaction w1 transactionId of
                None \<Rightarrow> (Inl error, w1)
              | Some transaction \<Rightarrow>
                  if retryCount transaction \<ge> queue_maxRetries cfg - 1
                  then (case updateTransactionStatus (wk_now env) transactionId FAILED
                               \<lparr> md_stellarTxHash = None, md_stellarLedger = None,
                                 md_failureReason =
                                   Some (''Max retries exceeded. Last error: '' @ errorMessage) \<rparr>
                               w1 of
                          Inl e \<Rightarrow> (Inl e, w1)
                        | Inr w2 \<Rightarrow>
                            (Inr \<lparr> jr_status = FAILED, jr_hash = None, jr_ledger = None,
                                   jr_reason = Some errorMessage \<rparr>, w2))
                  else (Inl error, w1)))"

definition processTransaction ::
  "Config \<Rightarrow> WorkerEnv \<Rightarrow> string \<Rightarrow> World \<Rightarrow> (Exn + JobReturn) \<times> World" where
  "processTransaction cfg env transactionId w =
     (case processTransaction_try cfg env transactionId w of
        (Inr r, w1) \<Rightarrow> (Inr r, w1)
      | (Inl error, w1) \<Rightarrow> processTransaction_catch cfg env transactionId error w1)"

text \<open>
  The queue's redelivery: the job is run once per delivery, each with its own
  surroundings, and is delivered again while the run throws and deliveries are
  left; a job of \<open>sendPayment\<close> has \<open>maxRetries\<close> of them.
\<close>

fun deliver ::
  "Config \<Rightarrow> WorkerEnv list \<Rightarrow> string \<Rightarrow> World \<Rightarrow> (Exn + JobReturn) option \<times> World" where
  "deliver cfg [] transactionId w = (None, w)"
| "deliver cfg (env # envs) transactionId w =
     (case processTransaction cfg env transactionId w of
        (Inr r, w1) \<Rightarrow> (Some (Inr r), w1)
      | (Inl e, w1) \<Rightarrow>
          if envs = [] then (Some (Inl e), w1) else deliver cfg envs transactionId w1)"

definition runJob ::
  "Config \<Rightarrow> WorkerEnv list \<Rightarrow> Job \<Rightarrow> World \<Rightarrow> (Exn + JobReturn) option \<times> World" where
  "runJob cfg envs job w =
     deliver cfg (take (nat (job_attempts job)) envs) (job_transactionId job) w"

section \<open>Example data\<close>

text \<open>
  Two users with a wallet each, used to run the services on concrete input. The
  wallets' secrets are encrypted with the small cipher above.
\<close>

definition alice :: User where
  "alice = \<lparr> u_id = ''u1'', keycloakId = ''kc1'', handle = ''alice'', u_status = ACTIVE \<rparr>"

definition bob :: User where
  "bob = \<lparr> u_id = ''u2'', keycloakId = ''kc2'', handle = ''bob'', u_status = ACTIVE \<rparr>"

definition exampleIV :: string where
  "exampleIV = ''0123456789abcdef''"

definition walletOf :: "string \<Rightarrow> string \<Rightarrow> string \<Rightarrow> string \<Rightarrow> rat \<Rightarrow> Wallet" where
  "walletOf wid uid publicKey secretKey bal =
     \<lparr> w_id = wid, userId = uid, stellarPublicKey = publicKey,
       stellarSecretKey = fst (encryptSecretKey toy_cipher defaultConfig exampleIV secretKey),
       encryptionIV = snd (encryptSecretKey toy_cipher defaultConfig exampleIV secretKey),
       balance = bal, w_status = WALLET_ACTIVE, lastFundedAt = None,
       fundingCount = 0, dailyFundingSum = 0, lastResetDate = 0 \<rparr>"

definition aliceWallet :: Wallet where
  "aliceWallet = walletOf ''w1'' ''u1'' ''GALICE'' ''SALICE'' 50"

definition bobWallet :: Wallet where
  "bobWallet = walletOf ''w2'' ''u2'' ''GBOB'' ''SBOB'' 0"

definition worldOf :: "User list \<Rightarrow> Wallet list \<Rightarrow> Transaction list \<Rightarrow> World" where
  "worldOf us ws ts =
     \<lparr> users = us, wallets = ws, transactions = ts, queue = [], submitted = [] \<rparr>"

definition exampleWorld :: World where
  "exampleWorld = worldOf [alice, bob] [aliceWallet, bobWallet] []"

text \<open>A transaction of 10 from alice to bob with the idempotency key \<open>key-1\<close>.\<close>

definition exampleTx :: "TransactionStatus \<Rightarrow> Transaction" where
  "exampleTx st =
     \<lparr> t_id = ''t1'', senderId = ''u1'', receiverId = ''u2'', amount = 10,
       t_type = P2P_SEND, t_status = st, stellarTxHash = None, stellarLedger = None,
       idempotencyKey = Some ''key-1'', failureReason = None, retryCount = 0,
       t_metadata = [(''senderHandle'', ''alice''), (''recipientHandle'', ''bob'')],
       createdAt = 1000, completedAt = None \<rparr>"

definition exampleEnv :: Env where
  "exampleEnv = \<lparr> env_now = 5000, env_tzOffset = 0, env_newId = ''t2'' \<rparr>"

definition notFound404 :: HorizonError where
  "notFound404 = \<lparr> response_status = Some 404, operation_code = None, he_message = ''Not Found'' \<rparr>"

definition timeout504 :: HorizonError where
  "timeout504 = \<lparr> response_status = Some 504, operation_code = None, he_message = ''timeout'' \<rparr>"

text \<open>
  A ledger that accepts every payment, and one that fails every payment with the
  given message.
\<close>

definition acceptingLedger :: WorkerEnv where
  "acceptingLedger =
     \<lparr> wk_now = 9000, wk_decipher = toy_decipher,
       wk_submit = (\<lambda>p. Inr \<lparr> pr_hash = ''hash-1'', pr_ledger = 77 \<rparr>),
       wk_loadAccount = (\<lambda>k. Inr [\<lparr> asset_type = ''native'', bl_balance = ''40.0000000'' \<rparr>]) \<rparr>"


definition failingLedger :: "string \<Rightarrow> WorkerEnv" where
  "failingLedger m =
     acceptingLedger\<lparr> wk_submit := (\<lambda>p. Inl (timeout504\<lparr> he_message := m \<rparr>)) \<rparr>"

text \<open>The example transaction already settled.\<close>

definition settledWorld :: World where
  "settledWorld = worldOf [alice, bob] [aliceWallet, bobWallet] [exampleTx SUCCESS]"





definition frozenWallet :: Wallet where
  "frozenWallet = aliceWallet\<lparr> w_status := FROZEN \<rparr>"


text \<open>
  The state after alice has sent 10 to bob with the key \<open>key-1\<close>, and after she
  has sent it with the empty string as key; the surroundings of a later request.
\<close>

definition createdTx :: Transaction where
  "createdTx = (exampleTx CREATED)\<lparr> t_id := ''t2'', createdAt := 5000 \<rparr>"

definition sentWorld :: World where
  "sentWorld =
     exampleWorld\<lparr> transactions := [createdTx], queue := [processJob defaultConfig ''t2''] \<rparr>"

definition emptyKeyTx :: Transaction where
  "emptyKeyTx = createdTx\<lparr> idempotencyKey := Some [] \<rparr>"

definition emptyKeyWorld :: World where
  "emptyKeyWorld =
     exampleWorld\<lparr> transactions := [emptyKeyTx], queue := [processJob defaultConfig ''t2''] \<rparr>"

definition laterEnv :: Env where
  "laterEnv = \<lparr> env_now = 6000, env_tzOffset = 0, env_newId = ''t3'' \<rparr>"

definition replayBody :: SendBody where
  "replayBody = \<lparr> b_recipientHandle = ''bob'', b_amount = ''10'', b_idempotencyKey = Some ''key-1'' \<rparr>"

text \<open>
  The example transaction newly created and queued; the same with the sender
  blocked, and with the sender's wallet frozen.
\<close>

definition queuedWorld :: World where
  "queuedWorld =
     (worldOf [alice, bob] [aliceWallet, bobWallet] [exampleTx CREATED])
       \<lparr> queue := [processJob defaultConfig ''t1''] \<rparr>"

definition blockedWorld :: World where
  "blockedWorld = queuedWorld\<lparr> users := [alice\<lparr> u_status := BLOCKED \<rparr>, bob] \<rparr>"

definition frozenSenderWorld :: World where
  "frozenSenderWorld = queuedWorld\<lparr> wallets := [frozenWallet, bobWallet] \<rparr>"

definition examplePayment :: PaymentParams where
  "examplePayment =
     \<lparr> fromSecretKey = ''SALICE'', toPublicKey = ''GBOB'', pay_amount = ''10'',
       memo = Some ''t1'' \<rparr>"

definition settledReturn :: JobReturn where
  "settledReturn =
     \<lparr> jr_status = SUCCESS, jr_hash = Some ''hash-1'', jr_ledger = Some 77, jr_reason = None \<rparr>"

section \<open>Evaluation lemmas\<close>

lemma floor_rat_numeral_div [simp]:
  "\<lfloor>(numeral a :: rat) / numeral b\<rfloor> = numeral a div numeral b"
  using floor_divide_of_int_eq [of "numeral a" "numeral b", where ?'a = rat] by simp

lemma show_nat_numeral [simp]:
  "show_nat (numeral k) =
     (if (numeral k :: nat) < 10 then [''0123456789'' ! (numeral k)]
      else show_nat (numeral k div 10) @ [''0123456789'' ! (numeral k mod 10)])"
  by (rule show_nat.simps)

lemma show_nat_0 [simp]: "show_nat 0 = ''0''"
  by (simp add: show_nat.simps)

lemma show_nat_1 [simp]: "show_nat 1 = ''1''"
  by (simp add: show_nat.simps)

lemma show_nat_Suc_0 [simp]: "show_nat (Suc 0) = ''1''"
  by (simp add: show_nat.simps)

lemmas parse_defs =
  parseFloat_def parse_sign_def is_space_def is_digit_def digits_val_def
  parse_exponent_def scale10_def

lemmas format_defs =
  decimal_toString_def toFixed7_def toDecimal7_def Let_def strip_zeros_def pad7_def

lemmas error_defs =
  ValidationError_def NotFoundError_def InsufficientBalanceError_def WalletFrozenError_def
  UserBlockedError_def RateLimitExceededError_def LimitExceededError_def StellarError_def
  InternalServerError_def

section \<open>The ledger gateway's balance query\<close>

text \<open>
  Claim C8. \<open>getBalance\<close> of the ledger gateway returns the string \<open>"0"\<close> when the
  network answers 404 (an unknown or unfunded account) and raises a
  \<open>StellarError\<close> only for a failure of another kind; an account that loads never
  raises, and one without a native balance line reads \<open>"0"\<close>.
\<close>

theorem getBalance_unknown_account_is_zero:
  "(response_status e = Some 404 \<longrightarrow> StellarService_getBalance (Inl e) = Inr ''0'')
   \<and> (response_status e \<noteq> Some 404 \<longrightarrow>
        StellarService_getBalance (Inl e) = Inl (StellarError ''Failed to get account balance'' []))
   \<and> (\<exists>b. StellarService_getBalance (Inr balances) = Inr b)
   \<and> (find (\<lambda>b. asset_type b = ''native'') balances = None \<longrightarrow>
        StellarService_getBalance (Inr balances) = Inr ''0'')"
proof (intro conjI impI)
  assume "response_status e = Some 404"
  then show "StellarService_getBalance (Inl e) = Inr ''0''"
    by (simp add: StellarService_getBalance_def)
next
  assume "response_status e \<noteq> Some 404"
  then show "StellarService_getBalance (Inl e)
             = Inl (StellarError ''Failed to get account balance'' [])"
    by (simp add: StellarService_getBalance_def)
next
  show "\<exists>b. StellarService_getBalance (Inr balances) = Inr b"
    by (cases "find (\<lambda>b. asset_type b = ''native'') balances")
       (simp_all add: StellarService_getBalance_def)
next
  assume "find (\<lambda>b. asset_type b = ''native'') balances = None"
  then show "StellarService_getBalance (Inr balances) = Inr ''0''"
    by (simp add: StellarService_getBalance_def)
qed

theorem getBalance_unknown_account_is_zero_witness:
  "response_status notFound404 = Some 404
   \<and> StellarService_getBalance (Inl notFound404) = Inr ''0''
   \<and> response_status timeout504 \<noteq> Some 404
   \<and> StellarService_getBalance (Inl timeout504)
       = Inl (AppError ''StellarError'' ''STELLAR_ERROR'' ''Failed to get account balance'' 500 [])
   \<and> find (\<lambda>b. asset_type b = ''native'') [] = None
   \<and> StellarService_getBalance (Inr []) = Inr ''0''"
  using getBalance_unknown_account_is_zero [of notFound404 "[]"]
        getBalance_unknown_account_is_zero [of timeout504 "[]"]
  by (simp add: notFound404_def timeout504_def StellarError_def)

section \<open>Status updates of the store\<close>







section \<open>Reading the balance\<close>

lemma replicate_numeral_eval [simp]: "replicate (numeral k) x = x # replicate (pred_numeral k) x"
  by (simp add: numeral_eq_Suc)

lemma alice_wallet: "getWalletByUserId exampleWorld ''u1'' = Inr aliceWallet"
  by (simp add: getWalletByUserId_def exampleWorld_def worldOf_def aliceWallet_def walletOf_def)





section \<open>Funding a wallet\<close>












section \<open>Payment intake\<close>

lemmas lookup_defs =
  getUserById_def getUserByHandle_def getUserByKeycloakId_def getWalletByUserId_def
  findByIdempotencyKey_def findTransaction_def existingFor_def

lemmas example_defs =
  exampleWorld_def worldOf_def alice_def bob_def aliceWallet_def bobWallet_def walletOf_def
  exampleTx_def exampleEnv_def laterEnv_def

lemma defaultConfig_fields [simp]:
  "transaction_minAmount defaultConfig = 1" "transaction_maxAmount defaultConfig = 100000"
  "transaction_dailyLimit defaultConfig = 500000" "queue_maxRetries defaultConfig = 3"
  "funding_rateLimitMax defaultConfig = 3" "funding_dailyCapXlm defaultConfig = 10000"
  "stellar_network defaultConfig = ''testnet''"
  by (simp_all add: defaultConfig_def)

lemma sendPayment_error_state:
  "sendPayment cfg env sid rh a k w = (Inl e, w') \<Longrightarrow> w' = w"
  by (auto simp add: sendPayment_def Let_def split: option.splits sum.splits if_splits)

lemma find_append_last:
  "find P (xs @ [x])
   = (case find P xs of Some y \<Rightarrow> Some y | None \<Rightarrow> if P x then Some x else None)"
  by (induction xs) auto

lemma find_map_preserving:
  assumes "\<And>x. P (h x) = P x"
  shows "find P (map h xs) = map_option h (find P xs)"
  using assms by (induction xs) auto

lemma sendPayment_success:
  assumes "sendPayment cfg env sid rh a k w = (Inr t, w')"
  shows "(existingFor w k = Some t \<and> w' = w)
       \<or> (existingFor w k = None \<and> t_status t = CREATED \<and> idempotencyKey t = k
           \<and> t_id t = env_newId env \<and> createdAt t = env_now env
           \<and> w' = w\<lparr> transactions := transactions w @ [t],
                        queue := queue w @ [processJob cfg (t_id t)] \<rparr>)"
  using assms
  by (auto simp add: sendPayment_def Let_def createTransaction_def
      split: option.splits sum.splits if_splits)

lemma sendPayment_replay:
  assumes "parseFloat a = Some n" "0 < n" "transaction_minAmount cfg \<le> n"
    "n \<le> transaction_maxAmount cfg" "existingFor w k = Some t"
  shows "sendPayment cfg env sid rh a k w = (Inr t, w)"
  using assms by (simp add: sendPayment_def not_le not_less)

lemma sendPayment_insufficient:
  assumes "parseFloat a = Some n" "0 < n" "transaction_minAmount cfg \<le> n"
    "n \<le> transaction_maxAmount cfg" "existingFor w k = None"
    "getUserById w sid = Inr sender" "getUserByHandle w rh = Inr recipient"
    "u_id sender \<noteq> u_id recipient" "u_status sender \<noteq> BLOCKED" "u_status recipient \<noteq> BLOCKED"
    "getWalletByUserId w (u_id sender) = Inr sw" "getWalletByUserId w (u_id recipient) = Inr rw"
    "w_status sw \<noteq> FROZEN" "w_status sw \<noteq> CLOSED" "w_status rw \<noteq> FROZEN" "w_status rw \<noteq> CLOSED"
    "balance sw < n"
  shows "sendPayment cfg env sid rh a k w
         = (Inl (InsufficientBalanceError a (decimal_toString (balance sw)) []), w)"
  using assms by (simp add: sendPayment_def not_le not_less)

lemma toDecimal7_10: "toDecimal7 10 = 10"
  by (simp add: format_defs)

lemma first_send:
  "sendPayment defaultConfig exampleEnv ''u1'' ''bob'' ''10'' (Some ''key-1'') exampleWorld
   = (Inr createdTx, sentWorld)"
  by (simp add: sendPayment_def parse_defs lookup_defs example_defs dailyTotal_def
        startOfToday_def createTransaction_def toDecimal7_10 createdTx_def sentWorld_def
        processJob_def Let_def)

lemma first_send_empty_key:
  "sendPayment defaultConfig exampleEnv ''u1'' ''bob'' ''10'' (Some []) exampleWorld
   = (Inr emptyKeyTx, emptyKeyWorld)"
  by (simp add: sendPayment_def parse_defs lookup_defs example_defs dailyTotal_def
        startOfToday_def createTransaction_def toDecimal7_10 createdTx_def emptyKeyTx_def
        emptyKeyWorld_def processJob_def Let_def)

lemma second_send_empty_key:
  "sendPayment defaultConfig laterEnv ''u1'' ''bob'' ''10'' (Some []) emptyKeyWorld
   = (Inl (PrismaError ''P2002''), emptyKeyWorld)"
  by (simp add: sendPayment_def parse_defs lookup_defs example_defs dailyTotal_def
        startOfToday_def createTransaction_def toDecimal7_10 createdTx_def emptyKeyTx_def
        emptyKeyWorld_def processJob_def Let_def)

lemma zero_amount_rejected:
  "sendPayment cfg env sid rh ''0'' k w = (Inl (amountError cfg), w)"
  by (simp add: sendPayment_def parse_defs)

lemma parseFloat_examples:
  "parseFloat ''100'' = Some 100" "parseFloat ''25'' = Some 25" "parseFloat ''10'' = Some 10"
  by (simp_all add: parse_defs)

text \<open>
  Claim C6. Whenever \<open>sendPayment\<close> raises an error, the state is the one it started
  from: no transaction row is created and no job is enqueued. When the checks before
  the balance check pass and the sender's cached balance is below the amount, the
  error is \<open>InsufficientBalanceError\<close> with the requested amount as \<open>required\<close> and the
  cached balance as \<open>available\<close> in its metadata.
\<close>

theorem intake_error_creates_nothing:
  "(sendPayment cfg env sid rh a k w = (Inl e, w') \<longrightarrow>
      w' = w \<and> transactions w' = transactions w \<and> queue w' = queue w)
   \<and> (parseFloat a = Some n \<and> 0 < n \<and> transaction_minAmount cfg \<le> n
        \<and> n \<le> transaction_maxAmount cfg \<and> existingFor w k = None
        \<and> getUserById w sid = Inr sender \<and> getUserByHandle w rh = Inr recipient
        \<and> u_id sender \<noteq> u_id recipient
        \<and> u_status sender \<noteq> BLOCKED \<and> u_status recipient \<noteq> BLOCKED
        \<and> getWalletByUserId w (u_id sender) = Inr sw
        \<and> getWalletByUserId w (u_id recipient) = Inr rw
        \<and> w_status sw \<noteq> FROZEN \<and> w_status sw \<noteq> CLOSED
        \<and> w_status rw \<noteq> FROZEN \<and> w_status rw \<noteq> CLOSED
        \<and> balance sw < n \<longrightarrow>
      sendPayment cfg env sid rh a k w
      = (Inl (AppError ''InsufficientBalanceError'' ''INSUFFICIENT_BALANCE''
                (''Insufficient balance. Required: '' @ a @ '', Available: ''
                   @ decimal_toString (balance sw)) 400
                [(''required'', a), (''available'', decimal_toString (balance sw))]), w))"
proof -
  have unchanged: "sendPayment cfg env sid rh a k w = (Inl e, w') \<longrightarrow>
      w' = w \<and> transactions w' = transactions w \<and> queue w' = queue w"
    using sendPayment_error_state [of cfg env sid rh a k w e w'] by auto
  have insufficient: "parseFloat a = Some n \<and> 0 < n \<and> transaction_minAmount cfg \<le> n
        \<and> n \<le> transaction_maxAmount cfg \<and> existingFor w k = None
        \<and> getUserById w sid = Inr sender \<and> getUserByHandle w rh = Inr recipient
        \<and> u_id sender \<noteq> u_id recipient
        \<and> u_status sender \<noteq> BLOCKED \<and> u_status recipient \<noteq> BLOCKED
        \<and> getWalletByUserId w (u_id sender) = Inr sw
        \<and> getWalletByUserId w (u_id recipient) = Inr rw
        \<and> w_status sw \<noteq> FROZEN \<and> w_status sw \<noteq> CLOSED
        \<and> w_status rw \<noteq> FROZEN \<and> w_status rw \<noteq> CLOSED
        \<and> balance sw < n \<longrightarrow>
      sendPayment cfg env sid rh a k w
      = (Inl (AppError ''InsufficientBalanceError'' ''INSUFFICIENT_BALANCE''
                (''Insufficient balance. Required: '' @ a @ '', Available: ''
                   @ decimal_toString (balance sw)) 400
                [(''required'', a), (''available'', decimal_toString (balance sw))]), w)"
    using sendPayment_insufficient [of a n cfg w k sid sender rh recipient sw rw env]
    by (simp add: InsufficientBalanceError_def)
  show ?thesis using unchanged insufficient by blast
qed

theorem intake_error_creates_nothing_witness:
  "parseFloat ''100'' = Some 100
   \<and> getWalletByUserId exampleWorld ''u1'' = Inr aliceWallet
   \<and> balance aliceWallet < 100
   \<and> sendPayment defaultConfig exampleEnv ''u1'' ''bob'' ''100'' None exampleWorld
       = (Inl (AppError ''InsufficientBalanceError'' ''INSUFFICIENT_BALANCE''
                 ''Insufficient balance. Required: 100, Available: 50'' 400
                 [(''required'', ''100''), (''available'', ''50'')]), exampleWorld)
   \<and> transactions exampleWorld = [] \<and> queue exampleWorld = []"
proof -
  have bal: "balance aliceWallet = 50" "decimal_toString 50 = ''50''"
    by (simp_all add: aliceWallet_def walletOf_def format_defs)
  have pre: "existingFor exampleWorld None = None"
    "getUserById exampleWorld ''u1'' = Inr alice" "getUserByHandle exampleWorld ''bob'' = Inr bob"
    "u_id alice = ''u1''" "u_id bob = ''u2''" "u_status alice = ACTIVE" "u_status bob = ACTIVE"
    "getWalletByUserId exampleWorld ''u2'' = Inr bobWallet"
    "w_status aliceWallet = WALLET_ACTIVE" "w_status bobWallet = WALLET_ACTIVE"
    by (simp_all add: lookup_defs example_defs)
  have empty: "transactions exampleWorld = []" "queue exampleWorld = []"
    by (simp_all add: exampleWorld_def worldOf_def)
  show ?thesis
    using intake_error_creates_nothing
            [of defaultConfig exampleEnv "''u1''" "''bob''" "''100''" None exampleWorld
                _ _ 100 alice bob aliceWallet bobWallet]
          alice_wallet empty
    by (simp add: parseFloat_examples pre bal)
qed

section \<open>Idempotent intake\<close>

lemma updateTransaction_keeps_key:
  assumes "updateTransaction i f w = Inr w2" "\<And>x. idempotencyKey (f x) = idempotencyKey x"
    "\<And>x. t_id (f x) = t_id x" "findByIdempotencyKey w k = Some t"
  shows "\<exists>t2. findByIdempotencyKey w2 k = Some t2 \<and> t_id t2 = t_id t"
proof -
  let ?h = "\<lambda>x. if t_id x = i then f x else x"
  have w2: "w2 = w\<lparr>transactions := map ?h (transactions w)\<rparr>"
    using assms(1) by (auto simp add: updateTransaction_def split: option.splits if_splits)
  have "find (\<lambda>t. idempotencyKey t = Some k) (map ?h (transactions w))
        = map_option ?h (find (\<lambda>t. idempotencyKey t = Some k) (transactions w))"
    by (rule find_map_preserving) (simp add: assms(2))
  then have "findByIdempotencyKey w2 k = Some (?h t)"
    using assms(4) by (simp add: findByIdempotencyKey_def w2)
  then show ?thesis by (simp add: assms(3))
qed

text \<open>
  Claim C4, as stated, fails: the amount is validated before the idempotency key is
  looked up, so a second call with the key of the first and the amount \<open>0\<close> raises
  a \<open>ValidationError\<close> instead of returning the first transaction. (An empty string
  as key is falsy and is not looked up at all: the second call then runs into the
  unique index.)
\<close>

theorem replay_with_invalid_amount_is_rejected:
  "sendPayment defaultConfig exampleEnv ''u1'' ''bob'' ''10'' (Some ''key-1'') exampleWorld
     = (Inr createdTx, sentWorld)
   \<and> sendPayment defaultConfig laterEnv ''u1'' ''bob'' ''0'' (Some ''key-1'') sentWorld
     = (Inl (ValidationError ''Amount must be between 1 and 100000 XLM'' []), sentWorld)
   \<and> sendPayment defaultConfig exampleEnv ''u1'' ''bob'' ''10'' (Some []) exampleWorld
     = (Inr emptyKeyTx, emptyKeyWorld)
   \<and> sendPayment defaultConfig laterEnv ''u1'' ''bob'' ''10'' (Some []) emptyKeyWorld
     = (Inl (PrismaError ''P2002''), emptyKeyWorld)"
  using first_send first_send_empty_key second_send_empty_key
        zero_amount_rejected [of defaultConfig laterEnv "''u1''" "''bob''" "Some ''key-1''" sentWorld]
  by (simp add: amountError_def format_defs)

text \<open>
  Claim C4, amended. Take two \<open>sendPayment\<close> calls with the same non-empty
  idempotency key, the first of which returned a transaction, and let the amount of
  the second, the same or another, pass the amount validation. Then the second call
  returns the transaction of the first and leaves the state as it is: no row is
  created and no job is enqueued. The first call created one row and one job when
  the key was new, and none when it was not. The second call also returns a
  transaction with the same id after the worker has updated the row. The key is
  looked up after the amount validation and before the sender and the recipient
  are resolved, so the second call's sender and recipient play no part.
\<close>

theorem idempotent_replay_returns_first_transaction:
  assumes first: "sendPayment cfg env1 sid1 rh1 a1 (Some k) w = (Inr t1, w1)"
    and key: "k \<noteq> []"
    and amount2: "parseFloat a2 = Some n2" "0 < n2" "transaction_minAmount cfg \<le> n2"
      "n2 \<le> transaction_maxAmount cfg"
  shows "sendPayment cfg env2 sid2 rh2 a2 (Some k) w1 = (Inr t1, w1)
     \<and> (findByIdempotencyKey w k = None \<longrightarrow>
          transactions w1 = transactions w @ [t1]
          \<and> queue w1 = queue w @ [processJob cfg (t_id t1)])
     \<and> (findByIdempotencyKey w k \<noteq> None \<longrightarrow> w1 = w)
     \<and> (\<forall>now i st md w2. updateTransactionStatus now i st md w1 = Inr w2 \<longrightarrow>
          (\<exists>t2. sendPayment cfg env2 sid2 rh2 a2 (Some k) w2 = (Inr t2, w2)
                \<and> t_id t2 = t_id t1))"
proof -
  have ex: "existingFor x (Some k) = findByIdempotencyKey x k" for x
    using key by (simp add: existingFor_def)
  from sendPayment_success [OF first]
  have cases: "(findByIdempotencyKey w k = Some t1 \<and> w1 = w)
       \<or> (findByIdempotencyKey w k = None \<and> idempotencyKey t1 = Some k
           \<and> w1 = w\<lparr> transactions := transactions w @ [t1],
                        queue := queue w @ [processJob cfg (t_id t1)] \<rparr>)"
    by (auto simp add: ex)
  have found: "findByIdempotencyKey w1 k = Some t1"
    using cases by (auto simp add: findByIdempotencyKey_def find_append_last)
  have replay: "sendPayment cfg env2 sid2 rh2 a2 (Some k) w1 = (Inr t1, w1)"
    using sendPayment_replay [OF amount2, of w1 "Some k" t1] found by (simp add: ex)
  have fresh: "findByIdempotencyKey w k = None \<longrightarrow>
          transactions w1 = transactions w @ [t1]
          \<and> queue w1 = queue w @ [processJob cfg (t_id t1)]"
    using cases by auto
  have old: "findByIdempotencyKey w k \<noteq> None \<longrightarrow> w1 = w"
    using cases by auto
  have later: "\<forall>now i st md w2. updateTransactionStatus now i st md w1 = Inr w2 \<longrightarrow>
          (\<exists>t2. sendPayment cfg env2 sid2 rh2 a2 (Some k) w2 = (Inr t2, w2)
                \<and> t_id t2 = t_id t1)"
  proof (intro allI impI)
    fix now i st md w2
    assume upd: "updateTransactionStatus now i st md w1 = Inr w2"
    have "\<exists>t2. findByIdempotencyKey w2 k = Some t2 \<and> t_id t2 = t_id t1"
      using updateTransaction_keeps_key [OF upd [unfolded updateTransactionStatus_def] _ _ found]
      by simp
    then obtain t2 where t2: "findByIdempotencyKey w2 k = Some t2" "t_id t2 = t_id t1"
      by blast
    have "sendPayment cfg env2 sid2 rh2 a2 (Some k) w2 = (Inr t2, w2)"
      using sendPayment_replay [OF amount2, of w2 "Some k" t2] t2 by (simp add: ex)
    then show "\<exists>t2. sendPayment cfg env2 sid2 rh2 a2 (Some k) w2 = (Inr t2, w2)
                \<and> t_id t2 = t_id t1"
      using t2 by blast
  qed
  show ?thesis using replay fresh old later by blast
qed

theorem idempotent_replay_returns_first_transaction_witness:
  "sendPayment defaultConfig exampleEnv ''u1'' ''bob'' ''10'' (Some ''key-1'') exampleWorld
     = (Inr createdTx, sentWorld)
   \<and> parseFloat ''25'' = Some 25
   \<and> sendPayment defaultConfig laterEnv ''u2'' ''alice'' ''25'' (Some ''key-1'') sentWorld
     = (Inr createdTx, sentWorld)
   \<and> transactions sentWorld = transactions exampleWorld @ [createdTx]
   \<and> queue sentWorld = queue exampleWorld @ [processJob defaultConfig ''t2'']"
proof -
  have none: "findByIdempotencyKey exampleWorld ''key-1'' = None" "t_id createdTx = ''t2''"
    by (simp_all add: findByIdempotencyKey_def exampleWorld_def worldOf_def createdTx_def
          exampleTx_def)
  show ?thesis
    using idempotent_replay_returns_first_transaction
            [OF first_send, of "''25''" 25 laterEnv "''u2''" "''alice''"]
          first_send none
    by (simp add: parseFloat_examples)
qed

section \<open>The response of POST /transactions/send\<close>

lemma replay_response:
  "controller_sendPayment defaultConfig laterEnv ''kc1'' replayBody settledWorld
   = (Inr \<lparr> http_code = 201, r_transactionId = ''t1'', r_status = SUCCESS, r_amount = ''10'',
            r_recipientHandle = ''bob'', r_createdAt = 1000,
            r_message = ''Payment initiated. Check status for confirmation.'' \<rparr>, settledWorld)"
  by (simp add: controller_sendPayment_def sendPaymentSchema_def amount_matches_def
        replayBody_def settledWorld_def sendPayment_def parse_defs lookup_defs example_defs
        format_defs)

text \<open>
  Claim C5, as stated, fails: a request that repeats the idempotency key of a
  transaction already settled is answered with 201 and the status SUCCESS.
\<close>

theorem replayed_request_returns_terminal_status:
  "map t_status (transactions settledWorld) = [SUCCESS]
   \<and> b_idempotencyKey replayBody = Some ''key-1''
   \<and> map_sum (\<lambda>e. e) (\<lambda>r. (http_code r, r_status r))
        (fst (controller_sendPayment defaultConfig laterEnv ''kc1'' replayBody settledWorld))
     = Inr (201, SUCCESS)"
  using replay_response
  by (simp add: settledWorld_def worldOf_def exampleTx_def replayBody_def)

text \<open>
  Claim C5, amended. Every successful response to POST /transactions/send has the
  HTTP status 201. Its body carries the status CREATED when the request created the
  transaction; for a request that repeats a used idempotency key it carries the id
  and the current status of the stored transaction, which can be PENDING, SUCCESS or
  FAILED, and the state is left as it is. The endpoint does not wait for settlement.
\<close>

theorem send_response_created_or_stored_status:
  assumes "controller_sendPayment cfg env kc body w = (Inr resp, w')"
  shows "http_code resp = 201
     \<and> ((existingFor w (b_idempotencyKey body) = None \<and> r_status resp = CREATED
          \<and> submitted w' = submitted w)
        \<or> (\<exists>t. existingFor w (b_idempotencyKey body) = Some t \<and> r_status resp = t_status t
               \<and> r_transactionId resp = t_id t \<and> w' = w))"
proof -
  from assms obtain user :: User and t where
    run: "sendPayment cfg env (u_id user) (b_recipientHandle body) (b_amount body)
            (b_idempotencyKey body) w = (Inr t, w')"
    and resp: "http_code resp = 201" "r_status resp = t_status t" "r_transactionId resp = t_id t"
    by (auto simp add: controller_sendPayment_def split: if_splits sum.splits prod.splits)
  from sendPayment_success [OF run] resp show ?thesis by auto
qed

theorem send_response_created_or_stored_status_witness:
  "controller_sendPayment defaultConfig exampleEnv ''kc1'' replayBody exampleWorld
   = (Inr \<lparr> http_code = 201, r_transactionId = ''t2'', r_status = CREATED, r_amount = ''10'',
            r_recipientHandle = ''bob'', r_createdAt = 5000,
            r_message = ''Payment initiated. Check status for confirmation.'' \<rparr>, sentWorld)
   \<and> existingFor exampleWorld (b_idempotencyKey replayBody) = None
   \<and> submitted sentWorld = submitted exampleWorld"
proof -
  have run: "controller_sendPayment defaultConfig exampleEnv ''kc1'' replayBody exampleWorld
   = (Inr \<lparr> http_code = 201, r_transactionId = ''t2'', r_status = CREATED, r_amount = ''10'',
            r_recipientHandle = ''bob'', r_createdAt = 5000,
            r_message = ''Payment initiated. Check status for confirmation.'' \<rparr>, sentWorld)"
    using first_send
    by (simp add: controller_sendPayment_def sendPaymentSchema_def amount_matches_def
          replayBody_def getUserByKeycloakId_def exampleWorld_def worldOf_def alice_def
          is_digit_def createdTx_def exampleTx_def format_defs)
  have fresh: "existingFor exampleWorld (b_idempotencyKey replayBody) = None"
    by (simp add: existingFor_def findByIdempotencyKey_def replayBody_def exampleWorld_def
          worldOf_def)
  show ?thesis
    using send_response_created_or_stored_status [OF run] run fresh by auto
qed

section \<open>Encrypting and decrypting a secret key\<close>

lemma hex_val_hex_digit:
  assumes "n < 16"
  shows "hex_val (hex_digit n) = Some n"
proof -
  from assms consider "n = 0" | "n = 1" | "n = 2" | "n = 3" | "n = 4" | "n = 5" | "n = 6"
    | "n = 7" | "n = 8" | "n = 9" | "n = 10" | "n = 11" | "n = 12" | "n = 13" | "n = 14"
    | "n = 15"
    by atomize_elim arith
  then show ?thesis
    by cases (simp_all add: hex_digit_def hex_val_def)
qed

lemma hex_digit_not_colon:
  assumes "n < 16"
  shows "hex_digit n \<noteq> CHR '':''"
proof -
  from assms consider "n = 0" | "n = 1" | "n = 2" | "n = 3" | "n = 4" | "n = 5" | "n = 6"
    | "n = 7" | "n = 8" | "n = 9" | "n = 10" | "n = 11" | "n = 12" | "n = 13" | "n = 14"
    | "n = 15"
    by atomize_elim arith
  then show ?thesis
    by cases (simp_all add: hex_digit_def)
qed

lemma byte_nibbles:
  "(of_char c :: nat) div 16 < 16" "(of_char c :: nat) mod 16 < 16"
proof -
  have "(of_char c :: nat) < 16 * 16"
    by simp
  then show "(of_char c :: nat) div 16 < 16"
    by (rule less_mult_imp_div_less)
  show "(of_char c :: nat) mod 16 < 16"
    by simp
qed

lemma fromHex_hex_of_byte:
  "fromHex (hex_of_byte c @ r) = c # fromHex r"
proof -
  have "char_of (16 * ((of_char c :: nat) div 16) + (of_char c :: nat) mod 16) = c"
    by simp
  then show ?thesis
    by (simp add: hex_of_byte_def hex_val_hex_digit byte_nibbles)
qed

lemma fromHex_toHex: "fromHex (toHex bs) = bs"
  by (induction bs) (simp_all add: toHex_def fromHex_hex_of_byte)

lemma colon_not_in_hex_of_byte: "CHR '':'' \<notin> set (hex_of_byte c)"
  using hex_digit_not_colon [OF byte_nibbles(1), of c] hex_digit_not_colon [OF byte_nibbles(2), of c]
  by (simp add: hex_of_byte_def)

lemma colon_not_in_toHex: "CHR '':'' \<notin> set (toHex bs)"
  by (induction bs) (simp_all add: toHex_def colon_not_in_hex_of_byte)

lemma toHex_empty_iff: "toHex bs = [] \<longleftrightarrow> bs = []"
  by (cases bs) (simp_all add: toHex_def hex_of_byte_def)

lemma split_on_absent: "c \<notin> set a \<Longrightarrow> split_on c a = [a]"
  by (induction a) auto

lemma split_on_once:
  "c \<notin> set a \<Longrightarrow> c \<notin> set b \<Longrightarrow> split_on c (a @ c # b) = [a, b]"
  by (induction a) (auto simp add: split_on_absent)

lemma decrypt_encrypt_secret:
  assumes correct: "enc (KEY cfg) ivBytes s = (ct, tag)" "dec (KEY cfg) ivBytes tag ct = Some s"
    and nonempty: "ct \<noteq> []" "tag \<noteq> []"
  shows "decryptSecretKey dec cfg (fst (encryptSecretKey enc cfg ivBytes s))
            (snd (encryptSecretKey enc cfg ivBytes s)) = Inr s"
  using assms
  by (simp add: decryptSecretKey_def encryptSecretKey_def encrypt_def decrypt_def Let_def
        split_on_once colon_not_in_toHex fromHex_toHex toHex_empty_iff)

lemma decrypt_empty_secret:
  assumes "enc (KEY cfg) ivBytes [] = ([], tag)"
  shows "decryptSecretKey dec cfg (fst (encryptSecretKey enc cfg ivBytes []))
            (snd (encryptSecretKey enc cfg ivBytes [])) = Inl (Error ''Invalid encrypted secret key format'')"
  using assms
  by (simp add: decryptSecretKey_def encryptSecretKey_def encrypt_def Let_def toHex_def)

lemma toy_roundtrip:
  "s \<noteq> [] \<Longrightarrow>
   decryptSecretKey toy_decipher cfg (fst (encryptSecretKey toy_cipher cfg ivBytes s))
     (snd (encryptSecretKey toy_cipher cfg ivBytes s)) = Inr s"
  by (rule decrypt_encrypt_secret [where ct = "rev s" and tag = "toy_tag (KEY cfg) ivBytes"])
     (simp_all add: toy_cipher_def toy_decipher_def toy_tag_def)

text \<open>
  Claim C9, as stated, fails for the empty string: its ciphertext is empty, so the
  stored value starts with the separator, the first part of the split is empty, and
  \<open>decryptSecretKey\<close> rejects the format. (The cipher here is the small one; any
  cipher whose ciphertext is as long as the plaintext, as that of AES-256-GCM is,
  gives the same result by \<open>decrypt_empty_secret\<close>.)
\<close>

theorem empty_secret_does_not_round_trip:
  "decryptSecretKey toy_decipher defaultConfig
     (fst (encryptSecretKey toy_cipher defaultConfig exampleIV []))
     (snd (encryptSecretKey toy_cipher defaultConfig exampleIV []))
   = Inl (Error ''Invalid encrypted secret key format'')"
  by (rule decrypt_empty_secret [where tag = "toy_tag (KEY defaultConfig) exampleIV"])
     (simp add: toy_cipher_def)

text \<open>
  Claim C9, amended. Let the cipher be correct (deciphering its output under the
  same key and IV gives the plaintext back), let its ciphertext be as long as the
  plaintext and its tag not be empty, as for AES-256-GCM. Then for every non-empty
  secret key \<open>s\<close>, decrypting the output of \<open>encryptSecretKey\<close> gives \<open>s\<close> back; the
  stored value is the hex ciphertext, a colon, and the hex authentication tag.
\<close>

theorem decryptSecretKey_inverts_encryptSecretKey:
  assumes correct: "\<forall>k i p. dec k i (snd (enc k i p)) (fst (enc k i p)) = Some p"
    and same_length: "\<forall>k i p. length (fst (enc k i p)) = length p"
    and tag: "\<forall>k i p. snd (enc k i p) \<noteq> []"
    and nonempty: "s \<noteq> []"
  shows "decryptSecretKey dec cfg (fst (encryptSecretKey enc cfg ivBytes s))
           (snd (encryptSecretKey enc cfg ivBytes s)) = Inr s
     \<and> fst (encryptSecretKey enc cfg ivBytes s)
         = toHex (fst (enc (KEY cfg) ivBytes s)) @ '':'' @ toHex (snd (enc (KEY cfg) ivBytes s))
     \<and> snd (encryptSecretKey enc cfg ivBytes s) = toHex ivBytes"
proof -
  obtain ct tg where e: "enc (KEY cfg) ivBytes s = (ct, tg)"
    by (cases "enc (KEY cfg) ivBytes s")
  have d: "dec (KEY cfg) ivBytes tg ct = Some s"
    using correct [rule_format, of "KEY cfg" ivBytes s] e by simp
  have "length ct = length s"
    using same_length [rule_format, of "KEY cfg" ivBytes s] e by simp
  then have ct: "ct \<noteq> []"
    using nonempty by auto
  have tg: "tg \<noteq> []"
    using tag [rule_format, of "KEY cfg" ivBytes s] e by simp
  have round: "decryptSecretKey dec cfg (fst (encryptSecretKey enc cfg ivBytes s))
           (snd (encryptSecretKey enc cfg ivBytes s)) = Inr s"
    using e d ct tg by (rule decrypt_encrypt_secret)
  have shape: "fst (encryptSecretKey enc cfg ivBytes s)
         = toHex (fst (enc (KEY cfg) ivBytes s)) @ '':'' @ toHex (snd (enc (KEY cfg) ivBytes s))"
      "snd (encryptSecretKey enc cfg ivBytes s) = toHex ivBytes"
    using e by (simp_all add: encryptSecretKey_def encrypt_def Let_def)
  show ?thesis using round shape by simp
qed

theorem decryptSecretKey_inverts_encryptSecretKey_witness:
  "(\<forall>k i p. toy_decipher k i (snd (toy_cipher k i p)) (fst (toy_cipher k i p)) = Some p)
   \<and> (\<forall>k i p. length (fst (toy_cipher k i p)) = length p)
   \<and> (\<forall>k i p. snd (toy_cipher k i p) \<noteq> [])
   \<and> decryptSecretKey toy_decipher defaultConfig
        (fst (encryptSecretKey toy_cipher defaultConfig exampleIV ''SALICE''))
        (snd (encryptSecretKey toy_cipher defaultConfig exampleIV ''SALICE'')) = Inr ''SALICE''"
proof -
  have laws: "\<forall>k i p. toy_decipher k i (snd (toy_cipher k i p)) (fst (toy_cipher k i p)) = Some p"
    "\<forall>k i p. length (fst (toy_cipher k i p)) = length p"
    "\<forall>k i p. snd (toy_cipher k i p) \<noteq> []"
    by (simp_all add: toy_cipher_def toy_decipher_def toy_tag_def)
  have ne: "''SALICE'' \<noteq> []"
    by simp
  have round: "decryptSecretKey toy_decipher defaultConfig
        (fst (encryptSecretKey toy_cipher defaultConfig exampleIV ''SALICE''))
        (snd (encryptSecretKey toy_cipher defaultConfig exampleIV ''SALICE'')) = Inr ''SALICE''"
    by (rule conjunct1
          [OF decryptSecretKey_inverts_encryptSecretKey [OF laws ne, of defaultConfig exampleIV]])
  show ?thesis
    using round laws by blast
qed

section \<open>The settlement worker on concrete jobs\<close>

lemmas worker_defs =
  processTransaction_def processTransaction_try_def processTransaction_catch_def
  findTransaction_def updateTransactionStatus_def updateTransaction_def
  incrementRetryCount_def noMetadata_def getDecryptedSecretKey_def
  StellarService_sendPayment_def syncBoth_def syncBalance_def StellarService_getBalance_def
  wallet_update_def

lemmas worker_example_defs =
  queuedWorld_def blockedWorld_def frozenSenderWorld_def worldOf_def exampleTx_def
  aliceWallet_def bobWallet_def frozenWallet_def walletOf_def alice_def bob_def
  acceptingLedger_def failingLedger_def timeout504_def processJob_def examplePayment_def
  settledReturn_def

lemma toDecimal7_40: "toDecimal7 40 = 40"
  by (simp add: format_defs)

lemma parseFloat_ledger_40: "parseFloat ''40.0000000'' = Some 40"
  by (simp add: parse_defs)

lemma decimal_toString_10: "decimal_toString 10 = ''10''"
  by (simp add: format_defs)

lemmas worker_eval =
  worker_defs worker_example_defs toy_roundtrip toDecimal7_40 parseFloat_ledger_40
  decimal_toString_10 Let_def StellarError_def

text \<open>
  Claim C1 does not hold of the code: \<open>processTransaction\<close> has no step that looks
  at the sender's status or at the wallets' status. Run on the queued example
  transaction with the sender BLOCKED, and again with the sender's wallet FROZEN, it
  hands the payment to the ledger gateway and marks the transaction SUCCESS, where
  the claim has it marked FAILED with no submission.
\<close>

theorem worker_submits_payment_of_blocked_sender:
  "map u_status (users blockedWorld) = [BLOCKED, ACTIVE]
   \<and> map t_status (transactions blockedWorld) = [CREATED]
   \<and> (case processTransaction defaultConfig acceptingLedger ''t1'' blockedWorld of
         (r, w') \<Rightarrow> (r, map t_status (transactions w'), submitted w'))
     = (Inr settledReturn, [SUCCESS], [examplePayment])
   \<and> map w_status (wallets frozenSenderWorld) = [FROZEN, WALLET_ACTIVE]
   \<and> (case processTransaction defaultConfig acceptingLedger ''t1'' frozenSenderWorld of
         (r, w') \<Rightarrow> (r, map t_status (transactions w'), submitted w'))
     = (Inr settledReturn, [SUCCESS], [examplePayment])"
  by (simp add: worker_eval)

text \<open>
  Claim C3 does not hold of the code. With \<open>maxRetries = 3\<close> a job has three
  deliveries, but the \<open>catch\<close> block marks the transaction FAILED as soon as the
  incremented retry counter reaches \<open>maxRetries - 1 = 2\<close> and then returns, which
  ends the job. When the gateway fails on the first and the second attempt, the
  transaction is FAILED with \<open>retryCount = 2\<close> and the second error as reason after
  two submissions, whatever the third attempt would have done: whether it would
  fail (the claim has \<open>retryCount = 3\<close> and the third error) or succeed (the claim has
  SUCCESS).
\<close>

theorem retries_stop_after_second_failure:
  "queue_maxRetries defaultConfig = 3
   \<and> (case runJob defaultConfig
            [failingLedger ''timeout-1'', failingLedger ''timeout-2'', failingLedger ''timeout-3'']
            (processJob defaultConfig ''t1'') queuedWorld of
         (r, w') \<Rightarrow> (r, map t_status (transactions w'), map retryCount (transactions w'),
                      map failureReason (transactions w'), length (submitted w')))
     = (Some (Inr \<lparr> jr_status = FAILED, jr_hash = None, jr_ledger = None,
                     jr_reason = Some ''Payment failed: timeout-2'' \<rparr>),
        [FAILED], [2],
        [Some ''Max retries exceeded. Last error: Payment failed: timeout-2''], 2)
   \<and> (case runJob defaultConfig
            [failingLedger ''timeout-1'', failingLedger ''timeout-2'', acceptingLedger]
            (processJob defaultConfig ''t1'') queuedWorld of
         (r, w') \<Rightarrow> (r, map t_status (transactions w'), map retryCount (transactions w'),
                      map failureReason (transactions w'), length (submitted w')))
     = (Some (Inr \<lparr> jr_status = FAILED, jr_hash = None, jr_ledger = None,
                     jr_reason = Some ''Payment failed: timeout-2'' \<rparr>),
        [FAILED], [2],
        [Some ''Max retries exceeded. Last error: Payment failed: timeout-2''], 2)"
  by (simp add: runJob_def worker_eval)

end
